theory Spec2Isabelle
  imports Complex_Main "HOL-Library.AList"
begin

section \<open>Strings and the string primitives the parser relies on\<close>

text \<open>
  The parser of \<^verbatim>\<open>bet365-ws/src/parser.ts\<close> works on JavaScript strings. A payload is
  modelled as a \<^typ>\<open>string\<close>, one \<^typ>\<open>char\<close> per code unit; the protocol is ASCII plus
  control bytes, so code units stay below 256. The library functions used by the
  source (\<^verbatim>\<open>split\<close>, \<^verbatim>\<open>trim\<close>, \<^verbatim>\<open>indexOf\<close>, \<^verbatim>\<open>startsWith\<close>, \<^verbatim>\<open>endsWith\<close>, \<^verbatim>\<open>includes\<close>,
  \<^verbatim>\<open>parseInt\<close>, \<^verbatim>\<open>parseFloat\<close>) are written out with the behaviour ECMAScript gives
  them on such strings.
\<close>

definition isDigit :: "char \<Rightarrow> bool" where
  "isDigit c = (c \<in> set ''0123456789'')"

text \<open>White space as \<^verbatim>\<open>trim\<close>, \<^verbatim>\<open>parseInt\<close> and \<^verbatim>\<open>parseFloat\<close> see it (code units below 256).\<close>

definition isSpace :: "char \<Rightarrow> bool" where
  "isSpace c = (c \<in> {CHR 0x09, CHR 0x0A, CHR 0x0B, CHR 0x0C, CHR 0x0D, CHR 0x20, CHR 0xA0})"

definition trimStart :: "string \<Rightarrow> string" where
  "trimStart s = dropWhile isSpace s"

definition trim :: "string \<Rightarrow> string" where
  "trim s = rev (dropWhile isSpace (rev (dropWhile isSpace s)))"

definition startsWith :: "string \<Rightarrow> string \<Rightarrow> bool" where
  "startsWith s p = (take (length p) s = p)"

definition endsWith :: "string \<Rightarrow> string \<Rightarrow> bool" where
  "endsWith s p = (length p \<le> length s \<and> drop (length s - length p) s = p)"

text \<open>\<^verbatim>\<open>s.indexOf(sub)\<close>: the first position where \<open>sub\<close> occurs, \<open>None\<close> for -1.\<close>

fun indexOf :: "string \<Rightarrow> string \<Rightarrow> nat option" where
  "indexOf [] sub = (if sub = [] then Some 0 else None)"
| "indexOf (c # cs) sub =
     (if startsWith (c # cs) sub then Some 0
      else map_option Suc (indexOf cs sub))"

definition includesStr :: "string \<Rightarrow> string \<Rightarrow> bool" where
  "includesStr s sub = (indexOf s sub \<noteq> None)"

text \<open>\<^verbatim>\<open>s.split(c)\<close> for a one-character separator: never empty, \<^verbatim>\<open>"".split(c)\<close> is \<^verbatim>\<open>[""]\<close>.\<close>

fun split :: "char \<Rightarrow> string \<Rightarrow> string list" where
  "split sep [] = [[]]"
| "split sep (c # cs) =
     (if c = sep then [] # split sep cs
      else (case split sep cs of
              [] \<Rightarrow> [[c]]
            | p # ps \<Rightarrow> (c # p) # ps))"

text \<open>The \<open>i\<close>-th element of an array, \<open>None\<close> for \<^verbatim>\<open>undefined\<close>.\<close>

definition nth_opt :: "'a list \<Rightarrow> nat \<Rightarrow> 'a option" where
  "nth_opt xs i = (if i < length xs then Some (xs ! i) else None)"

text \<open>
  \<^verbatim>\<open>x || d\<close> on a value that is a string or \<^verbatim>\<open>undefined\<close>: the empty string and
  \<^verbatim>\<open>undefined\<close> are falsy.
\<close>

fun orElse :: "string option \<Rightarrow> string \<Rightarrow> string" where
  "orElse None d = d"
| "orElse (Some v) d = (if v = [] then d else v)"

fun truthy :: "string option \<Rightarrow> bool" where
  "truthy None = False"
| "truthy (Some v) = (v \<noteq> [])"

subsection \<open>Numbers\<close>

definition digitVal :: "char \<Rightarrow> nat" where
  "digitVal c = of_char c - 48"

definition digitsVal :: "string \<Rightarrow> nat" where
  "digitsVal ds = foldl (\<lambda>acc c. 10 * acc + digitVal c) 0 ds"

text \<open>
  \<^verbatim>\<open>parseInt(s, 10)\<close>: leading white space, an optional sign, then the longest run of
  decimal digits; \<open>None\<close> is \<^verbatim>\<open>NaN\<close>. The argument \<^verbatim>\<open>undefined\<close> gives \<^verbatim>\<open>NaN\<close>. The
  result is an unbounded integer here; JavaScript rounds integers beyond \<open>2^53\<close>.
\<close>

definition parseInt :: "string option \<Rightarrow> int option" where
  "parseInt so =
     (case so of
        None \<Rightarrow> None
      | Some s \<Rightarrow>
          (let t = trimStart s;
               neg = (t \<noteq> [] \<and> hd t = CHR ''-'');
               u = (if t \<noteq> [] \<and> (hd t = CHR ''-'' \<or> hd t = CHR ''+'') then tl t else t);
               ds = takeWhile isDigit u
           in if ds = [] then None
              else Some (if neg then - int (digitsVal ds) else int (digitsVal ds))))"

text \<open>\<^verbatim>\<open>parseInt(x, 10) || 0\<close>: \<^verbatim>\<open>NaN\<close> and zero both give 0.\<close>

definition parseIntOr0 :: "string option \<Rightarrow> int" where
  "parseIntOr0 so = (case parseInt so of None \<Rightarrow> 0 | Some n \<Rightarrow> n)"

text \<open>
  JavaScript numbers as far as \<^verbatim>\<open>fractionalToDecimal\<close> needs them: \<^verbatim>\<open>NaN\<close>, the two
  infinities (\<open>Inf True\<close> is the negative one), and finite values. Finite values are
  exact rationals: the rounding of IEEE doubles and their overflow are not modelled.
\<close>

datatype jsnum = NaN | Inf bool | Fin rat

text \<open>The optional exponent part \<^verbatim>\<open>e[+-]?digits\<close>; without digits nothing is consumed.\<close>

definition exponentPart :: "string \<Rightarrow> int" where
  "exponentPart r =
     (if r \<noteq> [] \<and> (hd r = CHR ''e'' \<or> hd r = CHR ''E'') then
        (let r1 = tl r;
             neg = (r1 \<noteq> [] \<and> hd r1 = CHR ''-'');
             r2 = (if r1 \<noteq> [] \<and> (hd r1 = CHR ''-'' \<or> hd r1 = CHR ''+'') then tl r1 else r1);
             ds = takeWhile isDigit r2
         in if ds = [] then 0
            else if neg then - int (digitsVal ds) else int (digitsVal ds))
      else 0)"

definition scale10 :: "rat \<Rightarrow> int \<Rightarrow> rat" where
  "scale10 m e = (if 0 \<le> e then m * 10 ^ nat e else m / 10 ^ nat (- e))"

text \<open>
  \<^verbatim>\<open>parseFloat(s)\<close>: leading white space, an optional sign, then the longest prefix that
  is \<^verbatim>\<open>Infinity\<close> or a decimal literal (digits, an optional fraction, an optional
  exponent); \<^verbatim>\<open>NaN\<close> when there is none.
\<close>

definition parseFloat :: "string \<Rightarrow> jsnum" where
  "parseFloat s =
     (let t = trimStart s;
          neg = (t \<noteq> [] \<and> hd t = CHR ''-'');
          u = (if t \<noteq> [] \<and> (hd t = CHR ''-'' \<or> hd t = CHR ''+'') then tl t else t)
      in if startsWith u ''Infinity'' then Inf neg
         else
           (let ip = takeWhile isDigit u;
                r = dropWhile isDigit u;
                hasDot = (r \<noteq> [] \<and> hd r = CHR ''.'');
                fp = (if hasDot then takeWhile isDigit (tl r) else []);
                r' = (if hasDot then dropWhile isDigit (tl r) else r)
            in if ip = [] \<and> fp = [] then NaN
               else
                 (let m = of_nat (digitsVal ip) + of_nat (digitsVal fp) / 10 ^ length fp;
                      v = scale10 m (exponentPart r')
                  in Fin (if neg then - v else v))))"

text \<open>\<^verbatim>\<open>!d\<close> on a number: true for zero and \<^verbatim>\<open>NaN\<close>.\<close>

fun falsyNum :: "jsnum \<Rightarrow> bool" where
  "falsyNum NaN = True"
| "falsyNum (Fin q) = (q = 0)"
| "falsyNum (Inf b) = False"

text \<open>\<^verbatim>\<open>n / d\<close> for a divisor that is neither zero nor \<^verbatim>\<open>NaN\<close>, and \<^verbatim>\<open>x + 1\<close>.\<close>

fun jsDiv :: "jsnum \<Rightarrow> jsnum \<Rightarrow> jsnum" where
  "jsDiv NaN d = NaN"
| "jsDiv n NaN = NaN"
| "jsDiv (Inf a) (Inf b) = NaN"
| "jsDiv (Fin q) (Inf b) = Fin 0"
| "jsDiv (Inf a) (Fin r) = Inf (a \<noteq> (r < 0))"
| "jsDiv (Fin q) (Fin r) = Fin (q / r)"

fun jsAdd1 :: "jsnum \<Rightarrow> jsnum" where
  "jsAdd1 NaN = NaN"
| "jsAdd1 (Inf b) = Inf b"
| "jsAdd1 (Fin q) = Fin (q + 1)"

text \<open>Decimal rendering of an integer, as string concatenation and \<^verbatim>\<open>join\<close> produce it.\<close>

definition digitChar :: "nat \<Rightarrow> char" where
  "digitChar k = ''0123456789'' ! k"

fun showNat :: "nat \<Rightarrow> string" where
  "showNat n = (if n < 10 then [digitChar n] else showNat (n div 10) @ [digitChar (n mod 10)])"

declare showNat.simps [simp del]

definition showInt :: "int \<Rightarrow> string" where
  "showInt i = (if i < 0 then CHR ''-'' # showNat (nat (- i)) else showNat (nat i))"

text \<open>\<^verbatim>\<open>xs.join(sep)\<close>.\<close>

fun join :: "string \<Rightarrow> string list \<Rightarrow> string" where
  "join sep [] = []"
| "join sep [x] = x"
| "join sep (x # y # ys) = x @ sep @ join sep (y # ys)"

section \<open>Sport registry\<close>

record SportConfig =
  config_name :: string
  folder :: string
  nameSeparators :: "string list"
  usesSetScoring :: bool
  hasServing :: bool
  hasPointScore :: bool

text \<open>
  \<^verbatim>\<open>SPORT_REGISTRY\<close> is an object literal, so \<^verbatim>\<open>SPORT_REGISTRY[key]\<close> with a key that
  comes from the payload finds, besides the seven own entries, the members every
  object inherits from \<^verbatim>\<open>Object.prototype\<close>. Those are functions (or, for
  \<^verbatim>\<open>__proto__\<close>, the prototype object): truthy values without any of the fields of a
  \<^verbatim>\<open>SportConfig\<close>.
\<close>

datatype registry_value = Undefined | Own SportConfig | Inherited

definition objectPrototypeKeys :: "string list" where
  "objectPrototypeKeys =
     [''constructor'', ''__proto__'', ''hasOwnProperty'', ''isPrototypeOf'',
      ''propertyIsEnumerable'', ''toLocaleString'', ''toString'', ''valueOf'',
      ''__defineGetter__'', ''__defineSetter__'', ''__lookupGetter__'', ''__lookupSetter__'']"

definition mkConfig :: "string \<Rightarrow> string \<Rightarrow> string list \<Rightarrow> bool \<Rightarrow> bool \<Rightarrow> bool \<Rightarrow> SportConfig" where
  "mkConfig n f seps s v p =
     \<lparr>config_name = n, folder = f, nameSeparators = seps,
      usesSetScoring = s, hasServing = v, hasPointScore = p\<rparr>"

definition SPORT_REGISTRY :: "string \<Rightarrow> registry_value" where
  "SPORT_REGISTRY k =
     (if k = ''1'' then Own (mkConfig ''Soccer'' ''soccer'' ['' v '', '' vs ''] False False False)
      else if k = ''12'' then Own (mkConfig ''Football'' ''american-football'' ['' @ '', '' v ''] False False False)
      else if k = ''13'' then Own (mkConfig ''Tennis'' ''tennis'' ['' v ''] True True True)
      else if k = ''14'' then Own (mkConfig ''Snooker'' ''snooker'' ['' v ''] True False False)
      else if k = ''17'' then Own (mkConfig ''Hockey'' ''hockey'' ['' @ '', '' v '', '' vs ''] False False False)
      else if k = ''18'' then Own (mkConfig ''Basketball'' ''basketball'' ['' @ '', '' vs '', '' v ''] False False False)
      else if k = ''92'' then Own (mkConfig ''Table Tennis'' ''table-tennis'' ['' v ''] True True True)
      else if k \<in> set objectPrototypeKeys then Inherited
      else Undefined)"

text \<open>A flag read off a registry value; on an inherited member the field is \<^verbatim>\<open>undefined\<close>, falsy.\<close>

fun flagOf :: "(SportConfig \<Rightarrow> bool) \<Rightarrow> registry_value \<Rightarrow> bool" where
  "flagOf fl (Own c) = fl c"
| "flagOf fl v = False"

section \<open>Types\<close>

record Selection =
  sel_id :: string
  odds :: string
  oddsDecimal :: jsnum
  position :: int
  sel_suspended :: bool

record Market =
  market_id :: string
  market_name :: string
  market_suspended :: bool
  selections :: "Selection list"

datatype Status = pre_match | in_play

text \<open>
  \<^verbatim>\<open>markets\<close> is a JavaScript \<^verbatim>\<open>Map\<close>, which iterates in insertion order and keeps the
  place of a key that is set again: an association list under \<^const>\<open>AList.update\<close>.
\<close>

record SportMatch =
  eventId :: string
  fixtureId :: string
  itemId :: string
  name :: string
  sportId :: string
  sportName :: string
  team1 :: string
  team2 :: string
  tournament :: string
  tournamentCode :: string
  status :: Status
  scoreRaw :: string
  sets :: "(int \<times> int) list"
  currentGame :: "string \<times> string"
  serving :: nat
  markets :: "(string \<times> Market) list"
  lastUpdated :: string
  scheduledStart :: int

datatype RecordType = CL | CT | EV | MA | PA | MG | CG | unknown

datatype Action = F | U | D

record ParsedSegment =
  header :: string
  action :: Action
  recordType :: RecordType
  seg_fields :: "string \<rightharpoonup> string"

datatype UpdateType = ScoreUpdate | OddsUpdate | DeleteUpdate

text \<open>
  A \<^verbatim>\<open>MatchUpdate\<close> carries a reference to the live match object; \<open>update_match\<close> is
  the match as it is when the update is returned.
\<close>

record MatchUpdate =
  update_type :: UpdateType
  update_eventId :: string
  update_match :: SportMatch
  changes :: "string list"

section \<open>Low-level parsers\<close>

text \<open>
  One \<^verbatim>\<open>key=value\<close> part. An assignment to the key \<^verbatim>\<open>__proto__\<close> of a fresh object
  with a string value has no effect.
\<close>

definition parseField :: "(string \<rightharpoonup> string) \<Rightarrow> string \<Rightarrow> (string \<rightharpoonup> string)" where
  "parseField fs part =
     (if part = [] then fs
      else (case indexOf part ''='' of
              None \<Rightarrow> fs(''_type'' \<mapsto> part)
            | Some eqIdx \<Rightarrow>
                (if take eqIdx part = ''__proto__'' then fs
                 else fs(take eqIdx part \<mapsto> drop (Suc eqIdx) part))))"

definition parseFields :: "string \<Rightarrow> (string \<rightharpoonup> string)" where
  "parseFields raw = (if raw = [] then Map.empty else foldl parseField Map.empty (split CHR '';'' raw))"

definition detectRecordType :: "(string \<rightharpoonup> string) \<Rightarrow> RecordType" where
  "detectRecordType fs =
     (case fs ''_type'' of
        None \<Rightarrow> unknown
      | Some t \<Rightarrow>
          (if t = ''CL'' then CL else if t = ''CT'' then CT else if t = ''EV'' then EV
           else if t = ''MA'' then MA else if t = ''PA'' then PA else if t = ''MG'' then MG
           else if t = ''CG'' then CG else unknown))"

datatype ItemType = TEvent | TMarket | TSelection | TUnknown

record ItemId =
  id_eventId :: string
  id_categoryId :: string
  id_fixtureId :: string
  id_selectionId :: string
  id_marketNum :: string
  id_type :: ItemType

text \<open>
  \<^verbatim>\<open>id.replace(/_(32(_0)?[UDF]?)$/, "")\<close>: the pattern is anchored at the end, and no
  string has two suffixes of this shape, so the one that fits is removed.
\<close>

definition stripTopicSuffix :: "string \<Rightarrow> string" where
  "stripTopicSuffix s =
     (case filter (endsWith s)
             [''_32_0U'', ''_32_0D'', ''_32_0F'', ''_32_0'', ''_32U'', ''_32D'', ''_32F'', ''_32''] of
        [] \<Rightarrow> s
      | suf # _ \<Rightarrow> take (length s - length suf) s)"

text \<open>
  The three patterns of \<^verbatim>\<open>parseItemId\<close>. In each of them a run of digits is followed
  by a character that is not a digit, so the greedy match is the only one.

  \<^verbatim>\<open>^(?:OV|6V)(\d+)C(\d+)\<close> with what is left after it:
\<close>

definition eventPrefix :: "string \<Rightarrow> (string \<times> string \<times> string) option" where
  "eventPrefix s =
     (if startsWith s ''OV'' \<or> startsWith s ''6V'' then
        (let r = drop 2 s;
             d1 = takeWhile isDigit r;
             r1 = dropWhile isDigit r;
             d2 = takeWhile isDigit (tl r1);
             r2 = dropWhile isDigit (tl r1)
         in if d1 \<noteq> [] \<and> r1 \<noteq> [] \<and> hd r1 = CHR ''C'' \<and> d2 \<noteq> [] then Some (d1, d2, r2) else None)
      else None)"

text \<open>\<^verbatim>\<open>^(?:OV|6V)(\d+)C(\d+)A$\<close>\<close>

definition eventPattern :: "string \<Rightarrow> (string \<times> string) option" where
  "eventPattern s =
     (case eventPrefix s of
        Some (e, c, rest) \<Rightarrow> (if rest = ''A'' then Some (e, c) else None)
      | None \<Rightarrow> None)"

text \<open>\<^verbatim>\<open>^(?:OV|6V)(\d+)C(\d+)-(\d+)$\<close>\<close>

definition marketPattern :: "string \<Rightarrow> (string \<times> string \<times> string) option" where
  "marketPattern s =
     (case eventPrefix s of
        Some (e, c, rest) \<Rightarrow>
          (if rest \<noteq> [] \<and> hd rest = CHR ''-'' \<and> tl rest \<noteq> [] \<and> list_all isDigit (tl rest)
           then Some (e, c, tl rest) else None)
      | None \<Rightarrow> None)"

text \<open>
  \<^verbatim>\<open>^(?:OV|6VP?|OVES)(\d+)-0?(\d+)$\<close> after one given prefix. The optional \<open>0\<close> is
  taken when a digit is left for the selection id.
\<close>

definition selectionAfter :: "string \<Rightarrow> string \<Rightarrow> (string \<times> string) option" where
  "selectionAfter s p =
     (if startsWith s p then
        (let r = drop (length p) s;
             d1 = takeWhile isDigit r;
             r1 = dropWhile isDigit r;
             d2 = tl r1
         in if d1 \<noteq> [] \<and> r1 \<noteq> [] \<and> hd r1 = CHR ''-'' \<and> d2 \<noteq> [] \<and> list_all isDigit d2
            then Some (d1, if hd d2 = CHR ''0'' \<and> tl d2 \<noteq> [] then tl d2 else d2)
            else None)
      else None)"

definition selectionPattern :: "string \<Rightarrow> (string \<times> string) option" where
  "selectionPattern s =
     (case List.map_filter (selectionAfter s) [''OV'', ''6VP'', ''6V'', ''OVES''] of
        [] \<Rightarrow> None
      | r # _ \<Rightarrow> Some r)"

definition parseItemId :: "string \<Rightarrow> ItemId" where
  "parseItemId ident =
     (let result = \<lparr>id_eventId = [], id_categoryId = [], id_fixtureId = [],
                     id_selectionId = [], id_marketNum = [], id_type = TUnknown\<rparr>;
          clean = stripTopicSuffix ident
      in case eventPattern clean of
           Some (e, c) \<Rightarrow> result\<lparr>id_type := TEvent, id_eventId := e, id_categoryId := c\<rparr>
         | None \<Rightarrow>
             (case marketPattern clean of
                Some (e, c, n) \<Rightarrow>
                  result\<lparr>id_type := TMarket, id_eventId := e, id_categoryId := c, id_marketNum := n\<rparr>
              | None \<Rightarrow>
                  (case selectionPattern clean of
                     Some (fi, si) \<Rightarrow>
                       result\<lparr>id_type := TSelection, id_fixtureId := fi, id_selectionId := si\<rparr>
                   | None \<Rightarrow> result)))"

section \<open>Frame splitting\<close>

definition cleanAndSplit :: "string \<Rightarrow> string list" where
  "cleanAndSplit raw =
     (let normalized =
            filter (\<lambda>c. c \<noteq> CHR 0x00 \<and> c \<noteq> CHR 0x01 \<and> c \<noteq> CHR 0x08)
              (map (\<lambda>c. if c = CHR 0x14 \<or> c = CHR 0x15 then CHR 0x1E else c) raw)
      in filter (\<lambda>s. s \<noteq> []) (split (CHR 0x1E) normalized))"

text \<open>Case folding of \<^verbatim>\<open>/.../i\<close> on the letters of \<^verbatim>\<open>EMPTY\<close> and \<^verbatim>\<open>FUD\<close>.\<close>

definition upperAscii :: "char \<Rightarrow> char" where
  "upperAscii c =
     (if (97::nat) \<le> of_char c \<and> of_char c \<le> (122::nat) then char_of (of_char c - (32::nat)) else c)"

definition isTopicHeader :: "string \<Rightarrow> bool" where
  "isTopicHeader segment =
     (if segment = [] then False
      else if endsWith segment ''_32_0F'' \<or> endsWith segment ''_32_0U'' \<or> endsWith segment ''_32_0D'' then True
      else if endsWith segment ''_32F'' \<or> endsWith segment ''_32U'' \<or> endsWith segment ''_32D'' then True
      else if map upperAscii segment \<in> {''EMPTYF'', ''EMPTYU'', ''EMPTYD''} then True
      else if segment = ''__time'' then True
      else if startsWith segment ''#'' then True
      else False)"

text \<open>The fallback loop of \<^verbatim>\<open>splitFrame\<close>; \<open>current\<close> is the sub-message being collected.\<close>

fun groupParts :: "string list \<Rightarrow> string list \<Rightarrow> string list list" where
  "groupParts current [] = (if current \<noteq> [] then [current] else [])"
| "groupParts current (part # parts) =
     (if isTopicHeader part then
        (if current \<noteq> [] then current # groupParts [part] parts else groupParts [part] parts)
      else groupParts (current @ [part]) parts)"

definition splitFrame :: "string \<Rightarrow> string list list" where
  "splitFrame raw =
     (let chunks = cleanAndSplit raw
      in if length chunks > 1 then map (split CHR ''|'') chunks
         else groupParts [] (split CHR ''|'' (case chunks of [] \<Rightarrow> raw | c # _ \<Rightarrow> c)))"

section \<open>Score parsers\<close>

definition parseSetScores :: "string option \<Rightarrow> (int \<times> int) list" where
  "parseSetScores sso =
     (case sso of
        None \<Rightarrow> []
      | Some ss \<Rightarrow>
          (if ss = [] then []
           else map (\<lambda>st. let ab = split CHR ''-'' st
                          in (parseIntOr0 (nth_opt ab 0), parseIntOr0 (nth_opt ab 1)))
                    (split CHR '','' ss)))"

definition parsePointScore :: "string option \<Rightarrow> string \<times> string" where
  "parsePointScore xpo =
     (case xpo of
        None \<Rightarrow> (''0'', ''0'')
      | Some xp \<Rightarrow>
          (if xp = [] then (''0'', ''0'')
           else (let ps = split CHR ''-'' xp
                 in (orElse (nth_opt ps 0) ''0'', orElse (nth_opt ps 1) ''0''))))"

definition fractionalToDecimal :: "string \<Rightarrow> jsnum" where
  "fractionalToDecimal od =
     (if od = [] \<or> \<not> includesStr od ''/'' then Fin 0
      else (let ps = split CHR ''/'' od;
                n = (case nth_opt ps 0 of None \<Rightarrow> NaN | Some num \<Rightarrow> parseFloat num);
                d = (case nth_opt ps 1 of None \<Rightarrow> NaN | Some den \<Rightarrow> parseFloat den)
            in if falsyNum d then Fin 0 else jsAdd1 (jsDiv n d)))"

definition parseServing :: "string option \<Rightarrow> nat" where
  "parseServing pio =
     (case pio of
        None \<Rightarrow> 1
      | Some p \<Rightarrow>
          (if p = [] then 1
           else if nth_opt (split CHR '','' p) 0 = Some ''1'' then 1 else 2))"

text \<open>The first separator of the list that occurs in the name splits it.\<close>

fun splitAtSep :: "string \<Rightarrow> string list \<Rightarrow> (string \<times> string) option" where
  "splitAtSep nm [] = None"
| "splitAtSep nm (sep # seps) =
     (case indexOf nm sep of
        Some idx \<Rightarrow> Some (trim (take idx nm), trim (drop (idx + length sep) nm))
      | None \<Rightarrow> splitAtSep nm seps)"

datatype error = TypeError

text \<open>
  \<^verbatim>\<open>parseTeams\<close>. When the registry value is an inherited member, \<^verbatim>\<open>config\<close> is truthy
  and \<^verbatim>\<open>config.nameSeparators\<close> is \<^verbatim>\<open>undefined\<close>: iterating over it throws a
  \<^verbatim>\<open>TypeError\<close>.
\<close>

definition parseTeams :: "string \<Rightarrow> string \<Rightarrow> error + (string \<times> string)" where
  "parseTeams nm sid =
     (let fallback = (case splitAtSep nm ['' v '', '' vs '', '' @ ''] of
                        Some r \<Rightarrow> r
                      | None \<Rightarrow> (nm, []))
      in case SPORT_REGISTRY sid of
           Inherited \<Rightarrow> Inl TypeError
         | Own config \<Rightarrow>
             (case splitAtSep nm (nameSeparators config) of
                Some r \<Rightarrow> Inr r
              | None \<Rightarrow> Inr fallback)
         | Undefined \<Rightarrow> Inr fallback)"

section \<open>State manager\<close>

text \<open>
  The four \<^verbatim>\<open>Map\<close>s of the class are association lists in insertion order:
  \<^verbatim>\<open>set\<close> is \<^const>\<open>AList.update\<close>, \<^verbatim>\<open>get\<close> is \<^const>\<open>map_of\<close>, \<^verbatim>\<open>delete\<close> is
  \<^const>\<open>AList.delete\<close>, \<^verbatim>\<open>clear\<close> is the empty list. Objects stored in a map are
  mutated in place by the source; the model writes the changed object back under its key.
\<close>

record StateManager =
  matches :: "(string \<times> SportMatch) list"
  fixtureToEvent :: "(string \<times> string) list"
  selectionInfo :: "(string \<times> (string \<times> int)) list"
  itemToEvent :: "(string \<times> string) list"
  currentTournament :: string
  currentTournamentCode :: string
  currentCategory :: string
  currentSportId :: string
  inSupportedSport :: bool
  lastEventId :: string

definition initialState :: StateManager where
  "initialState =
     \<lparr>matches = [], fixtureToEvent = [], selectionInfo = [], itemToEvent = [],
      currentTournament = [], currentTournamentCode = [], currentCategory = [],
      currentSportId = [], inSupportedSport = False, lastEventId = []\<rparr>"

text \<open>How a call ends: it returns a value, or an exception leaves it.\<close>

datatype 'a outcome = Returned 'a | Threw

definition extractEventId :: "string \<Rightarrow> string" where
  "extractEventId ident =
     (let r = (if startsWith ident ''OV'' \<or> startsWith ident ''6V'' then drop 2 ident else ident);
          ds = takeWhile isDigit r;
          rest = dropWhile isDigit r
      in if ds \<noteq> [] \<and> rest \<noteq> [] \<and> hd rest = CHR ''C'' then ds else [])"

subsection \<open>Full dumps\<close>

text \<open>The name of a registry value; an inherited member never gets this far.\<close>

fun configName :: "registry_value \<Rightarrow> string" where
  "configName (Own c) = config_name c"
| "configName v = []"

definition buildMatch ::
  "StateManager \<Rightarrow> (string \<rightharpoonup> string) \<Rightarrow> string \<Rightarrow> string \<Rightarrow> registry_value \<Rightarrow> string \<times> string \<Rightarrow> SportMatch"
where
  "buildMatch s f eid sid sportConfig t =
     \<lparr>eventId = eid,
      fixtureId = orElse (f ''OI'') [],
      itemId = orElse (f ''IT'') (orElse (f ''ID'') []),
      name = orElse (f ''NA'') [],
      sportId = sid,
      sportName = configName sportConfig,
      team1 = fst t,
      team2 = snd t,
      tournament = orElse (f ''CT'') (currentTournament s),
      tournamentCode = orElse (f ''CC'') (currentTournamentCode s),
      status = (if truthy (f ''ES'') then in_play else pre_match),
      scoreRaw = orElse (f ''SS'') [],
      sets = (if flagOf usesSetScoring sportConfig then parseSetScores (f ''SS'') else []),
      currentGame = (if flagOf hasPointScore sportConfig then parsePointScore (f ''XP'') else (''0'', ''0'')),
      serving = (if flagOf hasServing sportConfig then parseServing (f ''PI'') else 0),
      markets = [],
      lastUpdated = orElse (f ''TU'') [],
      scheduledStart = parseIntOr0 (f ''SM'')\<rparr>"

text \<open>The four writes that register a freshly built match.\<close>

definition registerMatch ::
  "StateManager \<Rightarrow> (string \<rightharpoonup> string) \<Rightarrow> string \<Rightarrow> SportMatch \<Rightarrow> StateManager"
where
  "registerMatch s f eid m =
     s\<lparr>matches := AList.update eid m (matches s),
       fixtureToEvent :=
         (if fixtureId m \<noteq> [] then AList.update (fixtureId m) eid (fixtureToEvent s)
          else fixtureToEvent s),
       itemToEvent :=
         AList.update (orElse (f ''IT'') (orElse (f ''ID'') [])) eid (itemToEvent s),
       lastEventId := eid\<rparr>"

definition dumpEvent :: "StateManager \<Rightarrow> (string \<rightharpoonup> string) \<Rightarrow> StateManager \<times> unit outcome" where
  "dumpEvent s f =
     (let eid = extractEventId (orElse (f ''ID'') [])
      in if eid = [] then (s, Returned ())
         else
           (let sid = orElse (f ''CL'') (currentSportId s);
                sportConfig = SPORT_REGISTRY sid
            in if sportConfig = Undefined then (s, Returned ())
               else
                 (case parseTeams (orElse (f ''NA'') []) sid of
                    Inl e \<Rightarrow> (s, Threw)
                  | Inr t \<Rightarrow>
                      (registerMatch s f eid (buildMatch s f eid sid sportConfig t), Returned ()))))"

definition dumpMarket :: "StateManager \<Rightarrow> (string \<rightharpoonup> string) \<Rightarrow> StateManager" where
  "dumpMarket s f =
     (case map_of (matches s) (lastEventId s) of
        None \<Rightarrow> s
      | Some m \<Rightarrow>
          (let mk = \<lparr>market_id = orElse (f ''MA'') (orElse (f ''ID'') []),
                     market_name = orElse (f ''NA'') [],
                     market_suspended = (f ''SU'' = Some ''1''),
                     selections = []\<rparr>
           in s\<lparr>matches :=
                   AList.update (lastEventId s)
                     (m\<lparr>markets := AList.update (market_id mk) mk (markets m)\<rparr>) (matches s)\<rparr>))"

text \<open>\<^verbatim>\<open>lastMarket.selections.push(sel)\<close> on the market that iterates last.\<close>

definition pushToLastMarket :: "Selection \<Rightarrow> (string \<times> Market) list \<Rightarrow> (string \<times> Market) list" where
  "pushToLastMarket sel ms =
     (if ms = [] then ms
      else butlast ms @ [(fst (last ms), (snd (last ms))\<lparr>selections := selections (snd (last ms)) @ [sel]\<rparr>)])"

definition dumpSelection :: "StateManager \<Rightarrow> (string \<rightharpoonup> string) \<Rightarrow> StateManager" where
  "dumpSelection s f =
     (case map_of (matches s) (lastEventId s) of
        None \<Rightarrow> s
      | Some m \<Rightarrow>
          (let sel = \<lparr>sel_id = orElse (f ''ID'') [],
                      odds = orElse (f ''OD'') [],
                      oddsDecimal = fractionalToDecimal (orElse (f ''OD'') []),
                      position = parseIntOr0 (f ''OR''),
                      sel_suspended = (f ''SU'' = Some ''1'')\<rparr>;
               s1 = s\<lparr>matches :=
                         AList.update (lastEventId s)
                           (m\<lparr>markets := pushToLastMarket sel (markets m)\<rparr>) (matches s)\<rparr>
           in if truthy (f ''FI'')
              then s1\<lparr>selectionInfo :=
                        AList.update (orElse (f ''ID'') []) (orElse (f ''FI'') [], position sel)
                          (selectionInfo s1)\<rparr>
              else s1))"

text \<open>One iteration of the loop over the segments of a full dump.\<close>

definition dumpSegment :: "StateManager \<Rightarrow> ParsedSegment \<Rightarrow> StateManager \<times> unit outcome" where
  "dumpSegment s seg =
     (let f = seg_fields seg; rt = recordType seg
      in if rt = CL then
           (s\<lparr>currentSportId := orElse (f ''CL'') [],
              inSupportedSport := (SPORT_REGISTRY (orElse (f ''CL'') []) \<noteq> Undefined)\<rparr>,
            Returned ())
         else
           (let s1 = (if rt = EV \<and> truthy (f ''CL'') \<and> SPORT_REGISTRY (orElse (f ''CL'') []) \<noteq> Undefined
                      then s\<lparr>currentSportId := orElse (f ''CL'') [], inSupportedSport := True\<rparr>
                      else s)
            in if \<not> inSupportedSport s1 then (s1, Returned ())
               else if rt = CT then
                 (s1\<lparr>currentTournament := orElse (f ''NA'') [],
                     currentTournamentCode := orElse (f ''CC'') (orElse (f ''ID'') []),
                     currentCategory := orElse (f ''L3'') []\<rparr>,
                  Returned ())
               else if rt = EV then dumpEvent s1 f
               else if rt = MA \<and> lastEventId s1 \<noteq> [] then (dumpMarket s1 f, Returned ())
               else if rt = PA \<and> lastEventId s1 \<noteq> [] then (dumpSelection s1 f, Returned ())
               else (s1, Returned ())))"

fun dumpLoop :: "StateManager \<Rightarrow> ParsedSegment list \<Rightarrow> StateManager \<times> unit outcome" where
  "dumpLoop s [] = (s, Returned ())"
| "dumpLoop s (seg # segs) =
     (case dumpSegment s seg of
        (s', Threw) \<Rightarrow> (s', Threw)
      | (s', Returned u) \<Rightarrow> dumpLoop s' segs)"

definition resetContext :: "StateManager \<Rightarrow> StateManager" where
  "resetContext s =
     s\<lparr>inSupportedSport := False, currentSportId := [], currentTournament := [],
       currentTournamentCode := [], currentCategory := [], lastEventId := []\<rparr>"

definition clearTables :: "StateManager \<Rightarrow> StateManager" where
  "clearTables s = s\<lparr>matches := [], fixtureToEvent := [], selectionInfo := [], itemToEvent := []\<rparr>"

definition processFullDump ::
  "StateManager \<Rightarrow> ParsedSegment list \<Rightarrow> bool \<Rightarrow> StateManager \<times> unit outcome"
where
  "processFullDump s segments isGlobalDump =
     dumpLoop (if isGlobalDump then clearTables (resetContext s) else resetContext s) segments"

subsection \<open>Incremental updates\<close>

text \<open>\<^verbatim>\<open>header.replace(/[UD]$/, "")\<close>.\<close>

definition stripAction :: "string \<Rightarrow> string" where
  "stripAction h = (if h \<noteq> [] \<and> (last h = CHR ''U'' \<or> last h = CHR ''D'') then butlast h else h)"

text \<open>\<^verbatim>\<open>match.sets.map((s) => s.join("-")).join(",")\<close>.\<close>

definition serializeSets :: "(int \<times> int) list \<Rightarrow> string" where
  "serializeSets ss = join '','' (map (\<lambda>(a, b). showInt a @ ''-'' @ showInt b) ss)"

text \<open>
  The steps of an event-scoped update act on the match and on the list of change
  strings collected so far.
\<close>

definition applySS ::
  "registry_value \<Rightarrow> (string \<rightharpoonup> string) \<Rightarrow> SportMatch \<times> string list \<Rightarrow> SportMatch \<times> string list"
where
  "applySS sportConfig f mc =
     (case f ''SS'' of
        None \<Rightarrow> mc
      | Some ss \<Rightarrow>
          (let m = fst mc; cs = snd mc;
               oldScore = scoreRaw m;
               m1 = m\<lparr>scoreRaw := ss\<rparr>
           in if flagOf usesSetScoring sportConfig then
                (let oldSets = serializeSets (sets m1);
                     m2 = m1\<lparr>sets := parseSetScores (Some ss)\<rparr>;
                     newSets = serializeSets (sets m2)
                 in (m2, if oldSets \<noteq> newSets then cs @ [''sets: '' @ newSets] else cs))
              else (m1, if oldScore \<noteq> ss then cs @ [''score: '' @ ss] else cs)))"

definition applyXP ::
  "registry_value \<Rightarrow> (string \<rightharpoonup> string) \<Rightarrow> SportMatch \<times> string list \<Rightarrow> SportMatch \<times> string list"
where
  "applyXP sportConfig f mc =
     (if f ''XP'' \<noteq> None \<and> flagOf hasPointScore sportConfig then
        (let m = fst mc; cs = snd mc;
             oldGame = fst (currentGame m) @ ''-'' @ snd (currentGame m);
             m1 = m\<lparr>currentGame := parsePointScore (f ''XP'')\<rparr>;
             newGame = fst (currentGame m1) @ ''-'' @ snd (currentGame m1)
         in (m1, if oldGame \<noteq> newGame then cs @ [''game: '' @ newGame] else cs))
      else mc)"

definition applyPI ::
  "registry_value \<Rightarrow> (string \<rightharpoonup> string) \<Rightarrow> SportMatch \<times> string list \<Rightarrow> SportMatch \<times> string list"
where
  "applyPI sportConfig f mc =
     (if f ''PI'' \<noteq> None \<and> flagOf hasServing sportConfig then
        (let m = fst mc; cs = snd mc;
             oldServing = serving m;
             m1 = m\<lparr>serving := parseServing (f ''PI'')\<rparr>
         in (m1, if oldServing \<noteq> serving m1 then cs @ [''serving: P'' @ showNat (serving m1)] else cs))
      else mc)"

definition applyTU :: "(string \<rightharpoonup> string) \<Rightarrow> SportMatch \<Rightarrow> SportMatch" where
  "applyTU f m = (if truthy (f ''TU'') then m\<lparr>lastUpdated := orElse (f ''TU'') []\<rparr> else m)"

definition applyES :: "(string \<rightharpoonup> string) \<Rightarrow> SportMatch \<Rightarrow> SportMatch" where
  "applyES f m =
     (case f ''ES'' of
        None \<Rightarrow> m
      | Some es \<Rightarrow> m\<lparr>status := (if es = [] then pre_match else in_play)\<rparr>)"

definition updateEvent ::
  "StateManager \<Rightarrow> ParsedSegment \<Rightarrow> ItemId \<Rightarrow> StateManager \<times> MatchUpdate option"
where
  "updateEvent s seg parsedId =
     (let f = seg_fields seg;
          sportConfig = SPORT_REGISTRY (id_categoryId parsedId)
      in if sportConfig = Undefined then (s, None)
         else
           (case map_of (matches s) (id_eventId parsedId) of
              None \<Rightarrow> (s, None)
            | Some m0 \<Rightarrow>
                (let mc = applyPI sportConfig f (applyXP sportConfig f (applySS sportConfig f (m0, [])));
                     m = applyES f (applyTU f (fst mc));
                     cs = snd mc
                 in if action seg = D then
                      (s\<lparr>matches := AList.delete (id_eventId parsedId) (matches s)\<rparr>,
                       Some \<lparr>update_type = DeleteUpdate, update_eventId = id_eventId parsedId,
                             update_match = m, changes = [''deleted'']\<rparr>)
                    else
                      (s\<lparr>matches := AList.update (id_eventId parsedId) m (matches s)\<rparr>,
                       if cs \<noteq> [] then
                         Some \<lparr>update_type = ScoreUpdate, update_eventId = id_eventId parsedId,
                               update_match = m, changes = cs\<rparr>
                       else None))))"

text \<open>
  One selection of the walk over all markets. The arrow of the change string is the
  character U+2192 in the source; it is written \<open>->\<close> here.
\<close>

definition updateSel ::
  "(string \<rightharpoonup> string) \<Rightarrow> string \<Rightarrow> SportMatch \<Rightarrow> bool \<Rightarrow> Selection \<Rightarrow> Selection \<times> string list"
where
  "updateSel f sid m isThreeWay sel =
     (if sel_id sel = sid then
        (let r = (case f ''OD'' of
                    None \<Rightarrow> (sel, [])
                  | Some od \<Rightarrow>
                      (if od \<noteq> odds sel then
                         (let oldOdds = odds sel;
                              teamName = (if position sel = 0 then team1 m
                                          else if position sel = 1
                                          then (if isThreeWay then ''Draw'' else team2 m)
                                          else team2 m)
                          in (sel\<lparr>odds := od, oddsDecimal := fractionalToDecimal od\<rparr>,
                              [teamName @ '': '' @ oldOdds @ '' -> '' @ od]))
                       else (sel, [])))
         in (case f ''SU'' of
               None \<Rightarrow> r
             | Some su \<Rightarrow> ((fst r)\<lparr>sel_suspended := (su = ''1'')\<rparr>, snd r)))
      else (sel, []))"

fun walkSelections ::
  "(string \<rightharpoonup> string) \<Rightarrow> string \<Rightarrow> SportMatch \<Rightarrow> bool \<Rightarrow> Selection list \<Rightarrow> Selection list \<times> string list"
where
  "walkSelections f sid m three [] = ([], [])"
| "walkSelections f sid m three (sel # sels) =
     (let r = updateSel f sid m three sel;
          rs = walkSelections f sid m three sels
      in (fst r # fst rs, snd r @ snd rs))"

fun walkMarkets ::
  "(string \<rightharpoonup> string) \<Rightarrow> string \<Rightarrow> SportMatch \<Rightarrow> (string \<times> Market) list
     \<Rightarrow> (string \<times> Market) list \<times> string list"
where
  "walkMarkets f sid m [] = ([], [])"
| "walkMarkets f sid m (km # kms) =
     (let mk = snd km;
          r = walkSelections f sid m (length (selections mk) \<ge> 3) (selections mk);
          rs = walkMarkets f sid m kms
      in ((fst km, mk\<lparr>selections := fst r\<rparr>) # fst rs, snd r @ snd rs))"

definition updateSelection ::
  "StateManager \<Rightarrow> ParsedSegment \<Rightarrow> ItemId \<Rightarrow> StateManager \<times> MatchUpdate option"
where
  "updateSelection s seg parsedId =
     (let f = seg_fields seg
      in case map_of (fixtureToEvent s) (id_fixtureId parsedId) of
           None \<Rightarrow> (s, None)
         | Some eid \<Rightarrow>
             (if eid = [] then (s, None)
              else
                (case map_of (matches s) eid of
                   None \<Rightarrow> (s, None)
                 | Some m0 \<Rightarrow>
                     (let r = walkMarkets f (id_selectionId parsedId) m0 (markets m0);
                          m = m0\<lparr>markets := fst r\<rparr>;
                          cs = snd r
                      in (s\<lparr>matches := AList.update eid m (matches s)\<rparr>,
                          if cs \<noteq> [] then
                            Some \<lparr>update_type = OddsUpdate, update_eventId = eid,
                                  update_match = m, changes = cs\<rparr>
                          else None)))))"

definition processUpdate :: "StateManager \<Rightarrow> ParsedSegment \<Rightarrow> StateManager \<times> MatchUpdate option" where
  "processUpdate s seg =
     (if header seg = [] then (s, None)
      else
        (let parsedId = parseItemId (stripAction (header seg))
         in if id_type parsedId = TEvent then updateEvent s seg parsedId
            else if id_type parsedId = TSelection then updateSelection s seg parsedId
            else (s, None)))"

subsection \<open>Messages\<close>

text \<open>Heartbeats, subscriptions and empty acknowledgements.\<close>

definition skipHeader :: "string \<Rightarrow> bool" where
  "skipHeader h =
     (h = [] \<or> h = ''__time'' \<or> startsWith h ''#'' \<or> map upperAscii (take 5 h) = ''EMPTY'')"

definition fullDumpSegments :: "string list \<Rightarrow> ParsedSegment list" where
  "fullDumpSegments parts =
     map (\<lambda>part. \<lparr>header = hd parts, action = F,
                   recordType = detectRecordType (parseFields part),
                   seg_fields = parseFields part\<rparr>)
         (filter (\<lambda>part. part \<noteq> []) (map trim (tl parts)))"

definition updateSegment :: "string list \<Rightarrow> ParsedSegment" where
  "updateSegment parts =
     (let h = hd parts;
          lastSeg = (if includesStr h ''/'' then last (split CHR ''/'' h) else h)
      in \<lparr>header = lastSeg,
          action = (if lastSeg \<noteq> [] \<and> last lastSeg = CHR ''D'' then D else U),
          recordType = unknown,
          seg_fields = parseFields (orElse (map_option trim (nth_opt parts 1)) [])\<rparr>)"

text \<open>The body of the loop of \<^verbatim>\<open>processMessage\<close> for one sub-message.\<close>

definition processSubMessage ::
  "StateManager \<Rightarrow> string list \<Rightarrow> StateManager \<times> MatchUpdate option outcome"
where
  "processSubMessage s parts =
     (if parts = [] then (s, Returned None)
      else if skipHeader (hd parts) then (s, Returned None)
      else if endsWith (hd parts) ''F'' then
        (case processFullDump s (fullDumpSegments parts) (includesStr (hd parts) ''InPlay'') of
           (s', Threw) \<Rightarrow> (s', Threw)
         | (s', Returned u) \<Rightarrow> (s', Returned None))
      else if endsWith (hd parts) ''U'' \<or> endsWith (hd parts) ''D'' \<or> endsWith (hd parts) ''I'' then
        (case processUpdate s (updateSegment parts) of
           (s', upd) \<Rightarrow> (s', Returned upd))
      else (s, Returned None))"

fun messageLoop ::
  "StateManager \<Rightarrow> MatchUpdate list \<Rightarrow> string list list \<Rightarrow> StateManager \<times> MatchUpdate list outcome"
where
  "messageLoop s updates [] = (s, Returned updates)"
| "messageLoop s updates (parts # rest) =
     (case processSubMessage s parts of
        (s', Threw) \<Rightarrow> (s', Threw)
      | (s', Returned None) \<Rightarrow> messageLoop s' updates rest
      | (s', Returned (Some upd)) \<Rightarrow> messageLoop s' (updates @ [upd]) rest)"

definition processMessage :: "StateManager \<Rightarrow> string \<Rightarrow> StateManager \<times> MatchUpdate list outcome" where
  "processMessage s raw = messageLoop s [] (splitFrame raw)"

text \<open>
  A sequence of calls on one state manager. The caller in the repository catches what
  \<^verbatim>\<open>processMessage\<close> throws and goes on with the next frame, so the state an
  interrupted call leaves behind is the state the next call starts from.
\<close>

fun processAll :: "StateManager \<Rightarrow> string list \<Rightarrow> StateManager" where
  "processAll s [] = s"
| "processAll s (raw # raws) = processAll (fst (processMessage s raw)) raws"

definition getAllMatches :: "StateManager \<Rightarrow> SportMatch list" where
  "getAllMatches s = map snd (matches s)"

definition getLiveMatches :: "StateManager \<Rightarrow> SportMatch list" where
  "getLiveMatches s = filter (\<lambda>m. status m = in_play) (getAllMatches s)"

definition getMatchesBySport :: "StateManager \<Rightarrow> string \<Rightarrow> SportMatch list" where
  "getMatchesBySport s sid = filter (\<lambda>m. sportId m = sid) (getAllMatches s)"

section \<open>Scenarios and the notions the properties are stated with\<close>

text \<open>The full-dump sub-message of scenario S1 (tennis singles).\<close>

definition payloadS1 :: string where
  "payloadS1 = ''OVInPlay_32_0F|CL;CL=13;NA=Tennis;|CT;NA=ATP Santiago;CC=21124106;L3=ATP3-R2;|EV;ID=190321250C13A_32_0;NA=Mariano Navone v Luciano Darderi;OI=190340113;SS=3-6,0-0;XP=40-15;PI=1,0;ES=2;CL=13;|MA;ID=1763;NA=Money Line;SU=0;|PA;ID=701873422;FI=190340113;OD=9/2;OR=0;SU=0;|PA;ID=701873420;FI=190340113;OD=1/7;OR=1;SU=0;|''"

text \<open>The state after scenario S1, and the deltas of scenarios S3 (odds change) and S4 (delete).\<close>

definition stateS1 :: StateManager where
  "stateS1 = fst (processMessage initialState payloadS1)"

definition deltaS3 :: ParsedSegment where
  "deltaS3 = updateSegment [''OV190340113-701873422_32_0U'', ''OD=4/1;'', []]"

definition deltaS4 :: ParsedSegment where
  "deltaS4 = updateSegment [''OV190321250C13A_32_0D'', [], []]"

text \<open>
  The number of selections of a match, over all its markets, that carry the selection id
  \<open>sid\<close> and whose stored odds differ from \<open>od\<close>.
\<close>

definition selectionHits :: "string \<Rightarrow> string \<Rightarrow> SportMatch \<Rightarrow> nat" where
  "selectionHits sid od m =
     length (filter (\<lambda>sel. sel_id sel = sid \<and> odds sel \<noteq> od)
               (concat (map (\<lambda>km. selections (snd km)) (markets m))))"

text \<open>The updates a call returned; none when it threw.\<close>

fun updatesOf :: "MatchUpdate list outcome \<Rightarrow> MatchUpdate list" where
  "updatesOf (Returned us) = us"
| "updatesOf Threw = []"
















section \<open>Properties\<close>

subsection \<open>Scenario S1\<close>



subsection \<open>Splitting, digits and decimal rendering\<close>



















subsection \<open>Fractional odds\<close>





subsection \<open>Selection-scoped deltas\<close>

lemma walkSelections_changes:
  "seg_f ''OD'' = Some od \<Longrightarrow>
   length (snd (walkSelections seg_f sid m three sels)) =
     length (filter (\<lambda>sel. sel_id sel = sid \<and> odds sel \<noteq> od) sels)"
  by (induction sels) (auto simp: updateSel_def Let_def split: option.splits)

lemma walkMarkets_changes:
  "seg_f ''OD'' = Some od \<Longrightarrow>
   length (snd (walkMarkets seg_f sid m kms)) =
     length (filter (\<lambda>sel. sel_id sel = sid \<and> odds sel \<noteq> od)
               (concat (map (\<lambda>km. selections (snd km)) kms)))"
  by (induction kms) (auto simp: Let_def walkSelections_changes)

text \<open>
  Claim C4, amended. A selection-scoped delta whose fixtureId resolves to a registered
  match, and whose \<^verbatim>\<open>OD\<close> value differs from the stored odds of \<open>k \<ge> 1\<close> selections
  carrying the selection id, makes \<^verbatim>\<open>processUpdate\<close> return exactly one update, of type
  odds, for the resolved event; its list of changes has \<open>k\<close> entries, one per selection hit.
\<close>

theorem C4_one_odds_event:
  assumes "header seg \<noteq> []"
    and "id_type (parseItemId (stripAction (header seg))) = TSelection"
    and "map_of (fixtureToEvent s) (id_fixtureId (parseItemId (stripAction (header seg)))) = Some eid"
    and "eid \<noteq> []"
    and "map_of (matches s) eid = Some m"
    and "seg_fields seg ''OD'' = Some od"
    and "1 \<le> selectionHits (id_selectionId (parseItemId (stripAction (header seg)))) od m"
  shows "\<exists>u. snd (processUpdate s seg) = Some u \<and> update_type u = OddsUpdate \<and>
             update_eventId u = eid \<and>
             length (changes u) =
               selectionHits (id_selectionId (parseItemId (stripAction (header seg)))) od m"
proof -
  let ?sid = "id_selectionId (parseItemId (stripAction (header seg)))"
  have len: "length (snd (walkMarkets (seg_fields seg) ?sid m (markets m))) = selectionHits ?sid od m"
    using assms(6) by (simp add: walkMarkets_changes selectionHits_def)
  then have ne: "snd (walkMarkets (seg_fields seg) ?sid m (markets m)) \<noteq> []"
    using assms(7) by auto
  show ?thesis
    using assms(1-5) len ne
    by (simp add: processUpdate_def updateSelection_def Let_def)
qed

text \<open>The state after scenario S1 and the parsed delta of scenario S3, evaluated once.\<close>

lemma stateS1_value:
  "stateS1 =
     \<lparr>matches =
        [(''190321250'',
          \<lparr>eventId = ''190321250'', fixtureId = ''190340113'',
           itemId = ''190321250C13A_32_0'',
           name = ''Mariano Navone v Luciano Darderi'', sportId = ''13'',
           sportName = ''Tennis'', team1 = ''Mariano Navone'',
           team2 = ''Luciano Darderi'', tournament = ''ATP Santiago'',
           tournamentCode = ''21124106'', status = in_play,
           scoreRaw = ''3-6,0-0'', sets = [(3, 6), (0, 0)],
           currentGame = (''40'', ''15''), serving = 1,
           markets =
             [(''1763'',
               \<lparr>market_id = ''1763'', market_name = ''Money Line'',
                market_suspended = False,
                selections =
                  [\<lparr>sel_id = ''701873422'', odds = ''9/2'',
                    oddsDecimal = Fin (11 / 2), position = 0,
                    sel_suspended = False\<rparr>,
                   \<lparr>sel_id = ''701873420'', odds = ''1/7'',
                    oddsDecimal = Fin (8 / 7), position = 1,
                    sel_suspended = False\<rparr>]\<rparr>)],
           lastUpdated = [], scheduledStart = 0\<rparr>)],
      fixtureToEvent = [(''190340113'', ''190321250'')],
      selectionInfo = [(''701873422'', ''190340113'', 0), (''701873420'', ''190340113'', 1)],
      itemToEvent = [(''190321250C13A_32_0'', ''190321250'')],
      currentTournament = ''ATP Santiago'', currentTournamentCode = ''21124106'',
      currentCategory = ''ATP3-R2'', currentSportId = ''13'', inSupportedSport = True,
      lastEventId = ''190321250''\<rparr>"
  by code_simp

lemma deltaS3_item:
  "parseItemId (stripAction (header deltaS3)) =
     \<lparr>id_eventId = [], id_categoryId = [], id_fixtureId = ''190340113'',
      id_selectionId = ''701873422'', id_marketNum = [], id_type = TSelection\<rparr>"
  by code_simp

lemma deltaS3_fields: "header deltaS3 \<noteq> [] \<and> seg_fields deltaS3 ''OD'' = Some ''4/1''"
  by code_simp

text \<open>The delta of scenario S3 on the state after S1 meets the hypotheses, with one hit.\<close>

theorem C4_one_odds_event_witness:
  "header deltaS3 \<noteq> [] \<and>
   id_type (parseItemId (stripAction (header deltaS3))) = TSelection \<and>
   map_of (fixtureToEvent stateS1) (id_fixtureId (parseItemId (stripAction (header deltaS3))))
     = Some ''190321250'' \<and>
   ''190321250'' \<noteq> [] \<and>
   map_of (matches stateS1) ''190321250'' = Some (hd (getAllMatches stateS1)) \<and>
   seg_fields deltaS3 ''OD'' = Some ''4/1'' \<and>
   1 \<le> selectionHits (id_selectionId (parseItemId (stripAction (header deltaS3)))) ''4/1''
          (hd (getAllMatches stateS1)) \<and>
   (\<exists>u. snd (processUpdate stateS1 deltaS3) = Some u \<and> update_type u = OddsUpdate \<and>
        update_eventId u = ''190321250'' \<and>
        length (changes u) =
          selectionHits (id_selectionId (parseItemId (stripAction (header deltaS3)))) ''4/1''
            (hd (getAllMatches stateS1)))"
proof -
  have h1: "header deltaS3 \<noteq> []" by (simp add: deltaS3_fields)
  have h2: "id_type (parseItemId (stripAction (header deltaS3))) = TSelection"
    by (simp add: deltaS3_item)
  have h3: "map_of (fixtureToEvent stateS1) (id_fixtureId (parseItemId (stripAction (header deltaS3))))
     = Some ''190321250''" by (simp add: deltaS3_item stateS1_value)
  have h4: "''190321250'' \<noteq> []" by simp
  have h5: "map_of (matches stateS1) ''190321250'' = Some (hd (getAllMatches stateS1))"
    by (simp add: stateS1_value getAllMatches_def)
  have h6: "seg_fields deltaS3 ''OD'' = Some ''4/1''" by (simp add: deltaS3_fields)
  have h7: "1 \<le> selectionHits (id_selectionId (parseItemId (stripAction (header deltaS3)))) ''4/1''
          (hd (getAllMatches stateS1))"
    by (simp add: deltaS3_item stateS1_value getAllMatches_def selectionHits_def)
  show ?thesis
    using C4_one_odds_event[OF h1 h2 h3 h4 h5 h6 h7] h1 h2 h3 h5 h6 h7 by simp
qed

text \<open>
  Claim C4 as stated expects \<open>k\<close> events. A match whose two markets both hold selection
  77 has two hits for the delta \<^verbatim>\<open>OD=2/1\<close>, and \<^verbatim>\<open>processMessage\<close> returns one update.
\<close>

theorem C4_one_event_counterexample:
  "map (selectionHits ''77'' ''2/1'')
     (getAllMatches (fst (processMessage initialState
        ''OVInPlay_32_0F|CL;CL=13;|EV;ID=1C13A_32_0;NA=A v B;OI=9;|MA;ID=10;|PA;ID=77;OD=1/2;|MA;ID=11;|PA;ID=77;OD=1/3;|''))) = [2] \<and>
   map update_type
     (updatesOf (snd (processMessage
        (fst (processMessage initialState
           ''OVInPlay_32_0F|CL;CL=13;|EV;ID=1C13A_32_0;NA=A v B;OI=9;|MA;ID=10;|PA;ID=77;OD=1/2;|MA;ID=11;|PA;ID=77;OD=1/3;|''))
        ''OV9-77_32_0U|OD=2/1;|''))) = [OddsUpdate]"
  by code_simp

subsection \<open>Deleting a match\<close>

text \<open>
  Claim C10. An event-scoped \<open>D\<close> delta for a registered match of a supported category
  removes the match from the match table and changes nothing else: \<open>fixtureToEvent\<close>,
  \<open>itemToEvent\<close> and \<open>selectionInfo\<close> keep all their entries, and a delete update is
  returned. A selection-scoped delta whose fixtureId still resolves to the deleted event
  is then dropped: no update, and the state is unchanged.
\<close>

theorem C10_delete_leaves_indexes:
  assumes "header seg \<noteq> []"
    and "id_type (parseItemId (stripAction (header seg))) = TEvent"
    and "SPORT_REGISTRY (id_categoryId (parseItemId (stripAction (header seg)))) \<noteq> Undefined"
    and "map_of (matches s) (id_eventId (parseItemId (stripAction (header seg)))) = Some m"
    and "action seg = D"
    and "header seg2 \<noteq> []"
    and "id_type (parseItemId (stripAction (header seg2))) = TSelection"
    and "map_of (fixtureToEvent s) (id_fixtureId (parseItemId (stripAction (header seg2))))
           = Some (id_eventId (parseItemId (stripAction (header seg))))"
  shows "fst (processUpdate s seg) =
           s\<lparr>matches := AList.delete (id_eventId (parseItemId (stripAction (header seg)))) (matches s)\<rparr> \<and>
         map_of (matches (fst (processUpdate s seg)))
           (id_eventId (parseItemId (stripAction (header seg)))) = None \<and>
         fixtureToEvent (fst (processUpdate s seg)) = fixtureToEvent s \<and>
         itemToEvent (fst (processUpdate s seg)) = itemToEvent s \<and>
         selectionInfo (fst (processUpdate s seg)) = selectionInfo s \<and>
         (\<exists>u. snd (processUpdate s seg) = Some u \<and> update_type u = DeleteUpdate \<and>
              update_eventId u = id_eventId (parseItemId (stripAction (header seg)))) \<and>
         processUpdate (fst (processUpdate s seg)) seg2 = (fst (processUpdate s seg), None)"
proof -
  let ?e = "id_eventId (parseItemId (stripAction (header seg)))"
  have st: "processUpdate s seg =
      (s\<lparr>matches := AList.delete ?e (matches s)\<rparr>,
       Some \<lparr>update_type = DeleteUpdate, update_eventId = ?e,
             update_match = applyES (seg_fields seg) (applyTU (seg_fields seg)
               (fst (applyPI (SPORT_REGISTRY (id_categoryId (parseItemId (stripAction (header seg))))) (seg_fields seg)
                 (applyXP (SPORT_REGISTRY (id_categoryId (parseItemId (stripAction (header seg))))) (seg_fields seg)
                   (applySS (SPORT_REGISTRY (id_categoryId (parseItemId (stripAction (header seg))))) (seg_fields seg) (m, [])))))),
             changes = [''deleted'']\<rparr>)"
    using assms(1-5) by (simp add: processUpdate_def updateEvent_def Let_def)
  have gone: "map_of (AList.delete ?e (matches s)) ?e = None"
    by (simp add: delete_conv')
  have drop: "processUpdate (s\<lparr>matches := AList.delete ?e (matches s)\<rparr>) seg2 =
              (s\<lparr>matches := AList.delete ?e (matches s)\<rparr>, None)"
    using assms(6-8) gone by (simp add: processUpdate_def updateSelection_def Let_def)
  show ?thesis
    using gone drop by (simp add: st)
qed

text \<open>The delete of scenario S4 after S1, followed by the odds delta of scenario S3.\<close>

lemma deltaS4_item:
  "parseItemId (stripAction (header deltaS4)) =
     \<lparr>id_eventId = ''190321250'', id_categoryId = ''13'', id_fixtureId = [],
      id_selectionId = [], id_marketNum = [], id_type = TEvent\<rparr>"
  by code_simp

lemma deltaS4_fields: "header deltaS4 \<noteq> [] \<and> action deltaS4 = D"
  by code_simp

lemma registry_tennis: "SPORT_REGISTRY ''13'' \<noteq> Undefined"
  by (simp add: SPORT_REGISTRY_def)

theorem C10_delete_leaves_indexes_witness:
  "header deltaS4 \<noteq> [] \<and>
   id_type (parseItemId (stripAction (header deltaS4))) = TEvent \<and>
   SPORT_REGISTRY (id_categoryId (parseItemId (stripAction (header deltaS4)))) \<noteq> Undefined \<and>
   map_of (matches stateS1) (id_eventId (parseItemId (stripAction (header deltaS4))))
     = Some (hd (getAllMatches stateS1)) \<and>
   action deltaS4 = D \<and>
   header deltaS3 \<noteq> [] \<and>
   id_type (parseItemId (stripAction (header deltaS3))) = TSelection \<and>
   map_of (fixtureToEvent stateS1) (id_fixtureId (parseItemId (stripAction (header deltaS3))))
     = Some (id_eventId (parseItemId (stripAction (header deltaS4)))) \<and>
   matches (fst (processUpdate stateS1 deltaS4)) = [] \<and>
   fixtureToEvent (fst (processUpdate stateS1 deltaS4)) = [(''190340113'', ''190321250'')] \<and>
   itemToEvent (fst (processUpdate stateS1 deltaS4)) = [(''190321250C13A_32_0'', ''190321250'')] \<and>
   selectionInfo (fst (processUpdate stateS1 deltaS4))
     = [(''701873422'', ''190340113'', 0), (''701873420'', ''190340113'', 1)] \<and>
   processUpdate (fst (processUpdate stateS1 deltaS4)) deltaS3
     = (fst (processUpdate stateS1 deltaS4), None)"
proof -
  have h1: "header deltaS4 \<noteq> []" by (simp add: deltaS4_fields)
  have h2: "id_type (parseItemId (stripAction (header deltaS4))) = TEvent"
    by (simp add: deltaS4_item)
  have h3: "SPORT_REGISTRY (id_categoryId (parseItemId (stripAction (header deltaS4)))) \<noteq> Undefined"
    by (simp add: deltaS4_item registry_tennis)
  have h4: "map_of (matches stateS1) (id_eventId (parseItemId (stripAction (header deltaS4))))
     = Some (hd (getAllMatches stateS1))"
    by (simp add: deltaS4_item stateS1_value getAllMatches_def)
  have h5: "action deltaS4 = D" by (simp add: deltaS4_fields)
  have h6: "header deltaS3 \<noteq> []" by (simp add: deltaS3_fields)
  have h7: "id_type (parseItemId (stripAction (header deltaS3))) = TSelection"
    by (simp add: deltaS3_item)
  have h8: "map_of (fixtureToEvent stateS1) (id_fixtureId (parseItemId (stripAction (header deltaS3))))
     = Some (id_eventId (parseItemId (stripAction (header deltaS4))))"
    by (simp add: deltaS3_item deltaS4_item stateS1_value)
  have del: "AList.delete (id_eventId (parseItemId (stripAction (header deltaS4)))) (matches stateS1) = []"
    by (simp add: deltaS4_item stateS1_value AList.delete_eq)
  have ix: "fixtureToEvent stateS1 = [(''190340113'', ''190321250'')]"
    "itemToEvent stateS1 = [(''190321250C13A_32_0'', ''190321250'')]"
    "selectionInfo stateS1 = [(''701873422'', ''190340113'', 0), (''701873420'', ''190340113'', 1)]"
    by (simp_all add: stateS1_value)
  note inst = C10_delete_leaves_indexes[OF h1 h2 h3 h4 h5 h6 h7 h8]
  have c: "fst (processUpdate stateS1 deltaS4) =
             stateS1\<lparr>matches := AList.delete (id_eventId (parseItemId (stripAction (header deltaS4)))) (matches stateS1)\<rparr>"
    using inst by blast
  have d: "processUpdate (fst (processUpdate stateS1 deltaS4)) deltaS3
             = (fst (processUpdate stateS1 deltaS4), None)"
    using inst by blast
  have m: "matches (fst (processUpdate stateS1 deltaS4)) = []"
    and f: "fixtureToEvent (fst (processUpdate stateS1 deltaS4)) = [(''190340113'', ''190321250'')]"
    and i: "itemToEvent (fst (processUpdate stateS1 deltaS4)) = [(''190321250C13A_32_0'', ''190321250'')]"
    and si: "selectionInfo (fst (processUpdate stateS1 deltaS4))
               = [(''701873422'', ''190340113'', 0), (''701873420'', ''190340113'', 1)]"
    using del ix by (simp_all add: c)
  show ?thesis
    using h1 h2 h3 h4 h5 h6 h7 h8 m f i si d by blast
qed

subsection \<open>Inputs on which the code departs from the specification\<close>

text \<open>
  Claim C9 (no payload makes \<^verbatim>\<open>processMessage\<close> throw, and a bad record never costs the
  rest of its frame). An \<^verbatim>\<open>EV\<close> record whose \<^verbatim>\<open>CL\<close> field names a member inherited from
  \<^verbatim>\<open>Object.prototype\<close> passes both registry checks, and \<^verbatim>\<open>parseTeams\<close> throws a
  \<^verbatim>\<open>TypeError\<close>: the call ends abnormally and the well-formed record after it is never
  registered.
\<close>

theorem C9_throws_at_inherited_key:
  "processMessage initialState
     ''OVInPlay_32_0F|EV;ID=1C13A_32_0;CL=constructor;|EV;ID=2C13A_32_0;CL=13;NA=A v B;|''
   = (initialState\<lparr>currentSportId := ''constructor'', inSupportedSport := True\<rparr>, Threw)"
  by code_simp

text \<open>
  Claim C7 (a match of a sport without serving indicator has \<open>serving = 0\<close>). An
  event-scoped update takes the sport configuration from the category in its header, not
  from the match: a header with category 13 and a \<^verbatim>\<open>PI\<close> field sets \<open>serving\<close> on a
  soccer match.
\<close>

theorem C7_serving_on_soccer_match:
  "map (\<lambda>m. (sportName m, flagOf hasServing (SPORT_REGISTRY (sportId m)), serving m))
     (getAllMatches (processAll initialState
        [''OVInPlay_32_0F|CL;CL=1;NA=Soccer;|EV;ID=5C1A_32_0;NA=A v B;|'',
         ''OV5C13A_32_0U|PI=1,0;|'']))
   = [(''Soccer'', False, 1)]"
  by code_simp

subsection \<open>Full dumps: completion and emitted updates\<close>

text \<open>
  A full dump ends abnormally only at an \<^verbatim>\<open>EV\<close> record whose sport code is an inherited
  registry key; the sport code in force always comes from a \<^verbatim>\<open>CL\<close> field of the dump.
\<close>

lemma orElse_cases: "orElse x d = d \<or> (x \<noteq> None \<and> truthy x \<and> orElse x d = orElse x [])"
  by (cases x) auto

lemma registry_empty: "SPORT_REGISTRY [] = Undefined"
  by (simp add: SPORT_REGISTRY_def objectPrototypeKeys_def)

lemma parseTeams_throws: "(\<exists>e. parseTeams nm sid = Inl e) = (SPORT_REGISTRY sid = Inherited)"
  by (auto simp: parseTeams_def Let_def split: registry_value.splits option.splits)

lemma dumpEvent_no_throw:
  assumes "SPORT_REGISTRY (currentSportId s) \<noteq> Inherited"
    and "SPORT_REGISTRY (orElse (f ''CL'') []) \<noteq> Inherited"
  shows "snd (dumpEvent s f) = Returned () \<and> currentSportId (fst (dumpEvent s f)) = currentSportId s"
proof -
  have "SPORT_REGISTRY (orElse (f ''CL'') (currentSportId s)) \<noteq> Inherited"
    using assms orElse_cases[of "f ''CL''" "currentSportId s"] by auto
  then have "\<not> (\<exists>e. parseTeams (orElse (f ''NA'') []) (orElse (f ''CL'') (currentSportId s)) = Inl e)"
    by (simp add: parseTeams_throws)
  then show ?thesis
    by (auto simp: dumpEvent_def registerMatch_def Let_def split: sum.splits)
qed

lemma dumpSegment_no_throw:
  assumes "SPORT_REGISTRY (currentSportId s) \<noteq> Inherited"
    and "SPORT_REGISTRY (orElse (seg_fields seg ''CL'') []) \<noteq> Inherited"
  shows "snd (dumpSegment s seg) = Returned () \<and>
         SPORT_REGISTRY (currentSportId (fst (dumpSegment s seg))) \<noteq> Inherited"
proof -
  let ?f = "seg_fields seg"
  let ?s1 = "s\<lparr>currentSportId := orElse (?f ''CL'') [], inSupportedSport := True\<rparr>"
  have e1: "snd (dumpEvent s ?f) = Returned () \<and> currentSportId (fst (dumpEvent s ?f)) = currentSportId s"
    using assms by (rule dumpEvent_no_throw)
  have e2: "snd (dumpEvent ?s1 ?f) = Returned () \<and> currentSportId (fst (dumpEvent ?s1 ?f)) = currentSportId ?s1"
    using assms(2) by (intro dumpEvent_no_throw) simp_all
  show ?thesis
    using assms e1 e2
    by (simp add: dumpSegment_def Let_def dumpMarket_def dumpSelection_def split: option.splits)
qed

lemma dumpLoop_no_throw:
  "SPORT_REGISTRY (currentSportId s) \<noteq> Inherited \<Longrightarrow>
   \<forall>seg \<in> set segs. SPORT_REGISTRY (orElse (seg_fields seg ''CL'') []) \<noteq> Inherited \<Longrightarrow>
   snd (dumpLoop s segs) = Returned ()"
proof (induction segs arbitrary: s)
  case Nil
  then show ?case by simp
next
  case (Cons seg segs)
  have st: "snd (dumpSegment s seg) = Returned () \<and>
         SPORT_REGISTRY (currentSportId (fst (dumpSegment s seg))) \<noteq> Inherited"
    using Cons.prems by (intro dumpSegment_no_throw) simp_all
  obtain s' where s': "dumpSegment s seg = (s', Returned ())"
    using st by (cases "dumpSegment s seg") auto
  then show ?case
    using Cons.IH[of s'] Cons.prems(2) st by simp
qed

lemma processFullDump_no_throw:
  "\<forall>seg \<in> set segs. SPORT_REGISTRY (orElse (seg_fields seg ''CL'') []) \<noteq> Inherited \<Longrightarrow>
   snd (processFullDump s segs g) = Returned ()"
  unfolding processFullDump_def
  by (rule dumpLoop_no_throw) (simp_all add: resetContext_def clearTables_def registry_empty)







subsection \<open>Global and detail dumps\<close>
























subsection \<open>The match table and the fixture index\<close>

































subsection \<open>Concatenated payloads\<close>
















subsection \<open>When a call returns\<close>

text \<open>
  The only exception in the parser is the one at an inherited registry key: a payload
  none of whose dump records names such a key in its \<^verbatim>\<open>CL\<close> field is processed to the
  end, from any state.
\<close>

lemma processSubMessage_returns:
  assumes "\<forall>seg \<in> set (fullDumpSegments parts). SPORT_REGISTRY (orElse (seg_fields seg ''CL'') []) \<noteq> Inherited"
  shows "snd (processSubMessage s parts) \<noteq> Threw"
proof -
  have "snd (processFullDump s (fullDumpSegments parts) (includesStr (hd parts) ''InPlay'')) = Returned ()"
    using assms by (rule processFullDump_no_throw)
  then show ?thesis
    by (auto simp: processSubMessage_def split: prod.splits outcome.splits)
qed

lemma messageLoop_returns:
  "\<forall>parts \<in> set subs. \<forall>seg \<in> set (fullDumpSegments parts).
      SPORT_REGISTRY (orElse (seg_fields seg ''CL'') []) \<noteq> Inherited \<Longrightarrow>
   snd (messageLoop s ups subs) \<noteq> Threw"
proof (induction subs arbitrary: s ups)
  case Nil
  then show ?case by simp
next
  case (Cons parts subs)
  obtain s' r where sr: "processSubMessage s parts = (s', r)"
    by (cases "processSubMessage s parts") auto
  have nt: "r \<noteq> Threw"
    using processSubMessage_returns[of parts s] Cons.prems sr by simp
  have ih: "snd (messageLoop s' ups' subs) \<noteq> Threw" for ups'
    using Cons.IH[of s' ups'] Cons.prems by simp
  show ?case
  proof (cases r)
    case Threw
    then show ?thesis using nt by simp
  next
    case (Returned uo)
    then show ?thesis using sr ih by (cases uo) simp_all
  qed
qed

lemma processMessage_returns:
  "\<forall>parts \<in> set (splitFrame raw). \<forall>seg \<in> set (fullDumpSegments parts).
      SPORT_REGISTRY (orElse (seg_fields seg ''CL'') []) \<noteq> Inherited \<Longrightarrow>
   \<exists>us. snd (processMessage s raw) = Returned us"
  using messageLoop_returns[of "splitFrame raw" s "[]"]
  by (cases "snd (processMessage s raw)") (simp_all add: processMessage_def)

end
